theory Spec2Isabelle
  imports Complex_Main "HOL-Library.AList"
begin

section \<open>Python values and exceptions\<close>

text \<open>
  The evaluation framework (\<^verbatim>\<open>src/evaluation/RQ1\<close>) handles three kinds of data that
  arrive from outside and are therefore dynamically typed: the decoded answer of a
  language model, the ground-truth record of a method, and the body of an HTTP
  response. They are values of \<open>json\<close>, the image of \<^verbatim>\<open>json.loads\<close>: a Python
  \<^verbatim>\<open>dict\<close> is an association list in insertion order, a \<^verbatim>\<open>list\<close> a list, \<^verbatim>\<open>None\<close> is
  \<open>JNull\<close>. Floats are never computed with in the modelled code, only stored; they
  are reals. Strings hold ASCII characters.
\<close>

datatype json =
    JNull
  | JBool bool
  | JInt int
  | JFloat real
  | JStr string
  | JList "json list"
  | JDict "(string \<times> json) list"

text \<open>
  Exceptions are values. \<open>Exception\<close>, \<open>ValueError\<close> and \<open>JSONDecodeError\<close> carry the
  message the source (or the decoder) gives them, which is what \<^verbatim>\<open>str(e)\<close> returns.
  The exceptions the interpreter raises on a badly typed operand carry no text here:
  their wording belongs to the interpreter. Where the source stores \<^verbatim>\<open>str(e)\<close> in a
  result, the model stores \<open>e\<close>. \<open>OtherException\<close> stands for every other
  subclass of \<^verbatim>\<open>Exception\<close> a collaborator may raise (a timeout of the HTTP library,
  for instance). Exceptions outside \<^verbatim>\<open>Exception\<close> (a keyboard interrupt) are not
  modelled.
\<close>

datatype py_exn =
    Exception string
  | ValueError string
  | JSONDecodeError string
  | TypeError
  | AttributeError
  | KeyError string
  | IndexError
  | NameError string
  | ZeroDivisionError
  | ConnectionError
  | FileNotFoundError
  | OtherException string

text \<open>Sequencing of computations that may raise: the first exception wins.\<close>

fun bind_exn :: "py_exn + 'a \<Rightarrow> ('a \<Rightarrow> py_exn + 'b) \<Rightarrow> py_exn + 'b" where
  "bind_exn (Inl e) f = Inl e"
| "bind_exn (Inr x) f = f x"

subsection \<open>Operators on Python values\<close>

text \<open>\<^verbatim>\<open>p in s\<close> for two strings: \<open>p\<close> occurs in \<open>s\<close> as a contiguous block.\<close>

fun is_substring :: "string \<Rightarrow> string \<Rightarrow> bool" where
  "is_substring p [] = (p = [])"
| "is_substring p (c # s) = (take (length p) (c # s) = p \<or> is_substring p s)"

text \<open>
  \<^verbatim>\<open>key in obj\<close> with a string key: key membership for a dict, element membership for
  a list, substring for a string; a number, a boolean and \<^verbatim>\<open>None\<close> are not iterable
  and raise \<^verbatim>\<open>TypeError\<close>.
\<close>

fun py_in :: "string \<Rightarrow> json \<Rightarrow> py_exn + bool" where
  "py_in k (JDict kvs) = Inr (map_of kvs k \<noteq> None)"
| "py_in k (JList xs) = Inr (List.member xs (JStr k))"
| "py_in k (JStr s) = Inr (is_substring k s)"
| "py_in k JNull = Inl TypeError"
| "py_in k (JBool b) = Inl TypeError"
| "py_in k (JInt i) = Inl TypeError"
| "py_in k (JFloat x) = Inl TypeError"

text \<open>
  \<^verbatim>\<open>obj[key]\<close> with a string key: a dict looks the key up (\<^verbatim>\<open>KeyError\<close> when absent);
  lists and strings want integer indices, the other values are not subscriptable:
  \<^verbatim>\<open>TypeError\<close>.
\<close>

fun py_getitem :: "json \<Rightarrow> string \<Rightarrow> py_exn + json" where
  "py_getitem (JDict kvs) k = (case map_of kvs k of None \<Rightarrow> Inl (KeyError k) | Some v \<Rightarrow> Inr v)"
| "py_getitem (JList xs) k = Inl TypeError"
| "py_getitem (JStr s) k = Inl TypeError"
| "py_getitem JNull k = Inl TypeError"
| "py_getitem (JBool b) k = Inl TypeError"
| "py_getitem (JInt i) k = Inl TypeError"
| "py_getitem (JFloat x) k = Inl TypeError"

text \<open>
  \<^verbatim>\<open>obj[0]\<close>: the first element of a list or the first character of a string
  (\<^verbatim>\<open>IndexError\<close> when empty); a dict decoded from JSON has string keys only, so the
  key \<^verbatim>\<open>0\<close> is absent.
\<close>

fun py_getitem0 :: "json \<Rightarrow> py_exn + json" where
  "py_getitem0 (JList []) = Inl IndexError"
| "py_getitem0 (JList (x # xs)) = Inr x"
| "py_getitem0 (JStr []) = Inl IndexError"
| "py_getitem0 (JStr (c # s)) = Inr (JStr [c])"
| "py_getitem0 (JDict kvs) = Inl (KeyError ''0'')"
| "py_getitem0 JNull = Inl TypeError"
| "py_getitem0 (JBool b) = Inl TypeError"
| "py_getitem0 (JInt i) = Inl TypeError"
| "py_getitem0 (JFloat x) = Inl TypeError"

subsection \<open>String methods\<close>

text \<open>
  \<^verbatim>\<open>str.strip()\<close> removes leading and trailing whitespace; on ASCII text the
  whitespace characters are the codes 9 to 13, 28 to 31 and 32. \<^verbatim>\<open>str.lower()\<close> maps
  \<^verbatim>\<open>A\<close>..\<^verbatim>\<open>Z\<close> to \<^verbatim>\<open>a\<close>..\<^verbatim>\<open>z\<close>.
\<close>

definition is_space :: "char \<Rightarrow> bool" where
  "is_space c = (let n = (of_char c :: nat) in (9 \<le> n \<and> n \<le> 13) \<or> (28 \<le> n \<and> n \<le> 32))"

definition py_strip :: "string \<Rightarrow> string" where
  "py_strip s = rev (dropWhile is_space (rev (dropWhile is_space s)))"

definition lower_char :: "char \<Rightarrow> char" where
  "lower_char c =
     (case map_of (zip ''ABCDEFGHIJKLMNOPQRSTUVWXYZ'' ''abcdefghijklmnopqrstuvwxyz'') c of
        Some l \<Rightarrow> l
      | None \<Rightarrow> c)"

definition py_lower :: "string \<Rightarrow> string" where
  "py_lower s = map lower_char s"

text \<open>\<^verbatim>\<open>s.startswith(p)\<close>.\<close>

definition startswith :: "string \<Rightarrow> string \<Rightarrow> bool" where
  "startswith s p = (take (length p) s = p)"

text \<open>
  The slice \<^verbatim>\<open>s[a:-3]\<close> for \<open>a \<ge> 0\<close>: from index \<open>a\<close> up to, not including, the
  third character from the end; empty when the two bounds cross.
\<close>

definition slice_to_minus3 :: "nat \<Rightarrow> string \<Rightarrow> string" where
  "slice_to_minus3 a s = drop a (take (length s - 3) s)"

text \<open>\<^verbatim>\<open>str(n)\<close> for an integer, in decimal.\<close>

definition digit_char :: "nat \<Rightarrow> char" where
  "digit_char d =
     (if d = 0 then CHR ''0'' else if d = 1 then CHR ''1'' else if d = 2 then CHR ''2''
      else if d = 3 then CHR ''3'' else if d = 4 then CHR ''4'' else if d = 5 then CHR ''5''
      else if d = 6 then CHR ''6'' else if d = 7 then CHR ''7'' else if d = 8 then CHR ''8''
      else CHR ''9'')"

fun str_nat :: "nat \<Rightarrow> string" where
  "str_nat n = (if n < 10 then [digit_char n] else str_nat (n div 10) @ [digit_char (n mod 10)])"

definition str_int :: "int \<Rightarrow> string" where
  "str_int i = (if i < 0 then CHR ''-'' # str_nat (nat (- i)) else str_nat (nat i))"

section \<open>The response parser (llm\_interface.py)\<close>

text \<open>
  \<^verbatim>\<open>json.loads\<close> is the standard library's decoder, not code of the repository: it is
  the parameter \<open>loads\<close>, which returns the decoded value or the exception the decoder
  raised.

  \<^verbatim>\<open>parse_llm_response\<close> strips the text, removes a Markdown fence, decodes and
  checks the four required fields with \<^verbatim>\<open>in\<close> and \<^verbatim>\<open>[]\<close>. The checks raise
  \<^verbatim>\<open>ValueError\<close> themselves; whatever else they raise is not handled by the function's
  two \<^verbatim>\<open>except\<close> clauses and leaves it.
\<close>

definition strip_fence :: "string \<Rightarrow> string" where
  "strip_fence raw_response =
     (let raw = py_strip raw_response in
      if startswith raw ''```json'' then py_strip (slice_to_minus3 7 raw)
      else if startswith raw ''```'' then py_strip (slice_to_minus3 3 raw)
      else raw)"

definition validate_fields :: "json \<Rightarrow> py_exn + json" where
  "validate_fields parsed =
     bind_exn (py_in ''purpose_behavior'' parsed) (\<lambda>has_pb.
       if \<not> has_pb then Inl (ValueError ''Missing 'purpose_behavior' field'') else
     bind_exn (py_in ''return_values'' parsed) (\<lambda>has_rv.
       if \<not> has_rv then Inl (ValueError ''Missing 'return_values' field'') else
     bind_exn (py_getitem parsed ''return_values'') (\<lambda>rv.
     bind_exn (py_in ''type'' rv) (\<lambda>has_type.
       if \<not> has_type then Inl (ValueError ''Missing 'type' in return_values'') else
     bind_exn (py_getitem parsed ''return_values'') (\<lambda>rv2.
     bind_exn (py_in ''description'' rv2) (\<lambda>has_desc.
       if \<not> has_desc then Inl (ValueError ''Missing 'description' in return_values'')
       else Inr parsed))))))"

text \<open>The two placeholder records the handlers return.\<close>

definition parse_error_record :: "string \<Rightarrow> string \<Rightarrow> json" where
  "parse_error_record raw msg =
     JDict [(''purpose_behavior'', JStr (''PARSE_ERROR: '' @ take 200 raw)),
            (''return_values'', JDict [(''type'', JStr ''PARSE_ERROR''),
                                      (''description'', JStr ''Failed to parse JSON response'')]),
            (''parse_error'', JStr msg)]"

definition validation_error_record :: "string \<Rightarrow> json" where
  "validation_error_record msg =
     JDict [(''purpose_behavior'', JStr (''VALIDATION_ERROR: '' @ msg)),
            (''return_values'', JDict [(''type'', JStr ''VALIDATION_ERROR''),
                                      (''description'', JStr ''Response missing required fields'')]),
            (''validation_error'', JStr msg)]"

definition parse_llm_response :: "(string \<Rightarrow> py_exn + json) \<Rightarrow> string \<Rightarrow> py_exn + json" where
  "parse_llm_response loads raw_response =
     (let raw = strip_fence raw_response in
      case bind_exn (loads raw) validate_fields of
        Inr parsed \<Rightarrow> Inr parsed
      | Inl (JSONDecodeError m) \<Rightarrow> Inr (parse_error_record raw m)
      | Inl (ValueError m) \<Rightarrow> Inr (validation_error_record m)
      | Inl e \<Rightarrow> Inl e)"


text \<open>
  The caller types the raw response as \<^verbatim>\<open>str\<close>, but it is whatever the backend's
  JSON held; \<^verbatim>\<open>raw_response.strip()\<close> on anything but a string raises
  \<^verbatim>\<open>AttributeError\<close>.
\<close>

definition parse_raw :: "(string \<Rightarrow> py_exn + json) \<Rightarrow> json \<Rightarrow> py_exn + json" where
  "parse_raw loads raw_response =
     (case raw_response of JStr s \<Rightarrow> parse_llm_response loads s | _ \<Rightarrow> Inl AttributeError)"

section \<open>Configuration (config.py)\<close>

record llm_config =
  llm_type :: string
  model :: string
  temperature :: real
  max_tokens :: "int option"
  rate_limit_delay :: "real option"

definition LLM_CONFIGS :: "(string \<times> llm_config) list" where
  "LLM_CONFIGS =
     [(''gpt4o'', \<lparr>llm_type = ''openai'', model = ''gpt-4o'', temperature = 0.1,
                   max_tokens = Some 1000, rate_limit_delay = Some 1\<rparr>),
      (''deepseek'', \<lparr>llm_type = ''ollama'', model = ''deepseek-coder:6.7b'', temperature = 0.1,
                   max_tokens = None, rate_limit_delay = Some 0.5\<rparr>),
      (''qwen'', \<lparr>llm_type = ''ollama'', model = ''qwen3-coder:latest'', temperature = 0.1,
                   max_tokens = None, rate_limit_delay = Some 0.5\<rparr>),
      (''codellama'', \<lparr>llm_type = ''ollama'', model = ''codellama:7b'', temperature = 0.1,
                   max_tokens = None, rate_limit_delay = Some 0.5\<rparr>),
      (''llama3'', \<lparr>llm_type = ''ollama'', model = ''llama3.1:8b'', temperature = 0.1,
                   max_tokens = None, rate_limit_delay = Some 0.5\<rparr>)]"

definition MAX_RETRIES :: nat where
  "MAX_RETRIES = 3"

definition PROGRESS_SAVE_INTERVAL :: nat where
  "PROGRESS_SAVE_INTERVAL = 10"

definition OLLAMA_BASE_URL :: string where
  "OLLAMA_BASE_URL = ''http://localhost:11434''"

text \<open>\<^verbatim>\<open>PROMPT_TEMPLATE.format(method_signature=...)\<close>: the text before and after the one
  substitution point, with the doubled braces of the template already single.\<close>

definition PROMPT_HEAD :: string where
  "PROMPT_HEAD = ''Given this Android framework method signature:\<newline>''"

definition PROMPT_TAIL :: string where
  "PROMPT_TAIL =
     ''\<newline>\<newline>Analyze this method and provide:\<newline>'' @
     ''1. Purpose and behavior: Detailed description of what this method does\<newline>'' @
     ''2. Return value type: The exact type this method returns\<newline>'' @
     ''3. Return value description: What the return value represents\<newline>\<newline>'' @
     ''Format your response as JSON:\<newline>{\<newline>'' @
     ''  \"purpose_behavior\": \"detailed description here\",\<newline>'' @
     ''  \"return_values\": {\<newline>'' @
     ''    \"type\": \"exact_type_here\",\<newline>'' @
     ''    \"description\": \"return value meaning here\"\<newline>'' @
     ''  }\<newline>}\<newline>\<newline>'' @
     ''Respond ONLY with the JSON, no additional text.''"

section \<open>Results, events and the outside world\<close>

record http_request =
  url :: string
  headers :: "(string \<times> string) list"
  json_body :: json
  timeout :: nat

record http_response =
  status_code :: int
  resp_text :: string

text \<open>
  The dict \<^verbatim>\<open>evaluate_method\<close> returns, and the shorter one the orchestrator writes
  when the evaluation raised: a key the dict does not have is \<open>None\<close>. \<open>error\<close> holds
  the exception whose text the source stores.
\<close>

record llm_result =
  llm :: string
  method_signature :: "string option"
  raw_response :: "json option"
  parsed_response :: "json option"
  success :: bool
  error :: "py_exn option"
  attempt :: "int option"
  timestamp :: "real option"

record similarity_scores =
  purpose_similarity :: real
  return_type_match :: bool
  return_desc_similarity :: real
  overall_similarity :: real
  sim_success :: bool
  sim_error :: "py_exn option"

text \<open>One entry of \<^verbatim>\<open>self.results\<close>; the two inner dicts are keyed by backend name.\<close>

record method_result =
  category :: string
  ground_truth :: json
  llm_responses :: "(string \<times> llm_result) list"
  similarities :: "(string \<times> similarity_scores) list"
  evaluation_timestamp :: string

type_synonym results = "(string \<times> method_result) list"

text \<open>One element of \<^verbatim>\<open>get_method_list(self.ground_truth)\<close>.\<close>

record method_info =
  signature :: string
  method_category :: string
  data :: json

text \<open>
  What a run does to the outside world, in the order it does it: the calls of
  \<^verbatim>\<open>time.sleep\<close>, the HTTP requests posted, the files written with \<^verbatim>\<open>save_json\<close>
  (the summary statistics are derived from the results by float arithmetic and are
  recorded without their content), and the warning of a failed resume. The other
  calls of the logger change no value and no control flow and are left out. The
  spreadsheet report and the printed summary that follow the final save are reporting
  only (the report in its own \<^verbatim>\<open>try\<close>) and are left out as well. Writing a file is
  taken to succeed.
\<close>

datatype event =
    Sleep real
  | Post http_request
  | SaveJson string results
  | SaveSummary string
  | WarnCouldNotResume string py_exn

text \<open>
  What the outside world answers during one run. A logical request is made at most
  once per backend name and method signature in a run, so the answer to the HTTP
  request of an attempt, and the clock read after it, are functions of the backend
  name, the signature and the attempt index.
\<close>

record env =
  json_loads :: "string \<Rightarrow> py_exn + json"
  requests_post :: "string \<Rightarrow> string \<Rightarrow> nat \<Rightarrow> http_request \<Rightarrow> py_exn + http_response"
  time_time :: "string \<Rightarrow> string \<Rightarrow> nat \<Rightarrow> real"

record llm_interface =
  openai_api_key :: string
  ollama_base_url :: string
  llm_configs :: "(string \<times> llm_config) list"

section \<open>The backend clients and the retry loop (llm\_interface.py)\<close>

definition create_prompt :: "string \<Rightarrow> string" where
  "create_prompt sig = PROMPT_HEAD @ sig @ PROMPT_TAIL"

text \<open>\<^verbatim>\<open>response.json()["choices"][0]["message"]["content"]\<close>.\<close>

definition first_message_content :: "(string \<Rightarrow> py_exn + json) \<Rightarrow> http_response \<Rightarrow> py_exn + json" where
  "first_message_content loads response =
     bind_exn (loads (resp_text response)) (\<lambda>body.
     bind_exn (py_getitem body ''choices'') (\<lambda>choices.
     bind_exn (py_getitem0 choices) (\<lambda>choice.
     bind_exn (py_getitem choice ''message'') (\<lambda>message.
     py_getitem message ''content''))))"

text \<open>
  \<^verbatim>\<open>query_openai\<close>: \<^verbatim>\<open>config["max_tokens"]\<close> is read while the request is built; then
  one POST; then the three-way branch on the status code. \<open>post\<close> is what
  \<^verbatim>\<open>requests.post\<close> does with this request: a response, or an exception.
\<close>

definition openai_request :: "llm_interface \<Rightarrow> string \<Rightarrow> llm_config \<Rightarrow> int \<Rightarrow> http_request" where
  "openai_request self prompt config mt =
     \<lparr>url = ''https://api.openai.com/v1/chat/completions'',
      headers = [(''Authorization'', ''Bearer '' @ openai_api_key self),
                 (''Content-Type'', ''application/json'')],
      json_body = JDict [(''model'', JStr (model config)),
                         (''messages'', JList [JDict [(''role'', JStr ''user''),
                                                     (''content'', JStr prompt)]]),
                         (''temperature'', JFloat (temperature config)),
                         (''max_tokens'', JInt mt)],
      timeout = 60\<rparr>"

definition query_openai ::
  "(string \<Rightarrow> py_exn + json) \<Rightarrow> (http_request \<Rightarrow> py_exn + http_response) \<Rightarrow>
   llm_interface \<Rightarrow> string \<Rightarrow> llm_config \<Rightarrow> (py_exn + json) \<times> event list" where
  "query_openai loads post self prompt config =
     (case max_tokens config of
        None \<Rightarrow> (Inl (KeyError ''max_tokens''), [])
      | Some mt \<Rightarrow>
          let request = openai_request self prompt config mt
          in (case post request of
                Inl e \<Rightarrow> Inl e
              | Inr response \<Rightarrow>
                  if status_code response = 200 then
                    first_message_content loads response
                  else if status_code response = 429 then
                    Inl (Exception ''Rate limit exceeded'')
                  else
                    Inl (Exception (''OpenAI API error: '' @ str_int (status_code response)
                                      @ '' - '' @ resp_text response)),
              [Post request]))"

text \<open>
  \<^verbatim>\<open>query_ollama\<close>: the whole body stands in a \<^verbatim>\<open>try\<close> whose one handler turns a
  \<^verbatim>\<open>ConnectionError\<close> into a plain \<^verbatim>\<open>Exception\<close>.
\<close>

definition query_ollama ::
  "(string \<Rightarrow> py_exn + json) \<Rightarrow> (http_request \<Rightarrow> py_exn + http_response) \<Rightarrow>
   llm_interface \<Rightarrow> string \<Rightarrow> llm_config \<Rightarrow> (py_exn + json) \<times> event list" where
  "query_ollama loads post self prompt config =
     (let request =
            \<lparr>url = ollama_base_url self @ ''/api/generate'',
             headers = [],
             json_body = JDict [(''model'', JStr (model config)),
                                (''prompt'', JStr prompt),
                                (''stream'', JBool False),
                                (''options'', JDict [(''temperature'', JFloat (temperature config))])],
             timeout = 120\<rparr>;
          tried =
            (case post request of
               Inl e \<Rightarrow> Inl e
             | Inr response \<Rightarrow>
                 if status_code response = 200 then
                   bind_exn (loads (resp_text response)) (\<lambda>body. py_getitem body ''response'')
                 else
                   Inl (Exception (''Ollama API error: '' @ str_int (status_code response)
                                     @ '' - '' @ resp_text response)))
      in (case tried of
            Inl ConnectionError \<Rightarrow>
              Inl (Exception ''Cannot connect to Ollama. Make sure Ollama is running locally.'')
          | _ \<Rightarrow> tried,
          [Post request]))"

text \<open>
  One pass through the body of the \<^verbatim>\<open>try\<close> of \<^verbatim>\<open>evaluate_method\<close>, after the backoff
  sleep: query the backend the configuration names, then parse. The value is the raw
  and the parsed response, or the exception that the \<^verbatim>\<open>except Exception\<close> clause
  catches. The source builds the prompt once, before the loop; it is the same text in
  every pass.
\<close>

definition query_llm ::
  "env \<Rightarrow> llm_interface \<Rightarrow> llm_config \<Rightarrow> string \<Rightarrow> string \<Rightarrow> nat \<Rightarrow> (py_exn + json) \<times> event list" where
  "query_llm ev self config sig llm_name att =
     (let prompt = create_prompt sig;
          post = requests_post ev llm_name sig att
      in if llm_type config = ''openai''
         then query_openai (json_loads ev) post self prompt config
         else query_ollama (json_loads ev) post self prompt config)"

definition attempt_body ::
  "env \<Rightarrow> llm_interface \<Rightarrow> llm_config \<Rightarrow> string \<Rightarrow> string \<Rightarrow> nat \<Rightarrow>
   (py_exn + json \<times> json) \<times> event list" where
  "attempt_body ev self config sig llm_name att =
     (let queried = query_llm ev self config sig llm_name att
      in (bind_exn (fst queried) (\<lambda>raw_response.
          bind_exn (parse_raw (json_loads ev) raw_response) (\<lambda>parsed.
          Inr (raw_response, parsed))),
          snd queried))"

text \<open>The two dicts \<^verbatim>\<open>evaluate_method\<close> returns, at the attempt with index \<open>att\<close>.\<close>

definition success_result :: "env \<Rightarrow> string \<Rightarrow> string \<Rightarrow> nat \<Rightarrow> json \<Rightarrow> json \<Rightarrow> llm_result" where
  "success_result ev sig llm_name att raw parsed =
     \<lparr>llm = llm_name, method_signature = Some sig,
      raw_response = Some raw, parsed_response = Some parsed,
      success = True, error = None, attempt = Some (int att + 1),
      timestamp = Some (time_time ev llm_name sig att)\<rparr>"

definition failure_result :: "env \<Rightarrow> string \<Rightarrow> string \<Rightarrow> nat \<Rightarrow> py_exn \<Rightarrow> llm_result" where
  "failure_result ev sig llm_name att e =
     \<lparr>llm = llm_name, method_signature = Some sig,
      raw_response = None, parsed_response = None,
      success = False, error = Some e, attempt = Some (int att + 1),
      timestamp = Some (time_time ev llm_name sig att)\<rparr>"

text \<open>
  The loop \<^verbatim>\<open>for attempt in range(MAX_RETRIES)\<close>, over the list of the remaining
  attempt indices. Both \<^verbatim>\<open>return\<close> statements stand inside the loop. The code after
  the loop (the rate-limit sleep and \<^verbatim>\<open>return result\<close>) runs only when the loop ends
  without returning, which is when the range is empty; \<^verbatim>\<open>result\<close> is assigned
  nowhere, so the \<^verbatim>\<open>return\<close> raises \<^verbatim>\<open>NameError\<close>.
\<close>

fun retry_loop ::
  "env \<Rightarrow> nat \<Rightarrow> llm_interface \<Rightarrow> llm_config \<Rightarrow> string \<Rightarrow> string \<Rightarrow> nat list \<Rightarrow>
   (py_exn + llm_result) \<times> event list" where
  "retry_loop ev max_retries self config sig llm_name [] =
     (Inl (NameError ''result''),
      [Sleep (case rate_limit_delay config of None \<Rightarrow> 1 | Some d \<Rightarrow> d)])"
| "retry_loop ev max_retries self config sig llm_name (att # rest) =
     (let backoff = (if att > 0 then [Sleep (2 ^ att)] else []);
          tried = attempt_body ev self config sig llm_name att
      in case fst tried of
           Inr (raw, parsed) \<Rightarrow>
             (Inr (success_result ev sig llm_name att raw parsed), backoff @ snd tried)
         | Inl e \<Rightarrow>
             if int att < int max_retries - 1 then
               (let continued = retry_loop ev max_retries self config sig llm_name rest
                in (fst continued, backoff @ snd tried @ snd continued))
             else
               (Inr (failure_result ev sig llm_name att e), backoff @ snd tried))"

text \<open>
  \<^verbatim>\<open>evaluate_method\<close>; the source reads the module constant \<open>MAX_RETRIES\<close>, here the
  parameter \<open>max_retries\<close>.
\<close>

definition evaluate_method ::
  "env \<Rightarrow> nat \<Rightarrow> llm_interface \<Rightarrow> string \<Rightarrow> string \<Rightarrow> (py_exn + llm_result) \<times> event list" where
  "evaluate_method ev max_retries self sig llm_name =
     (case map_of (llm_configs self) llm_name of
        None \<Rightarrow> (Inl (ValueError (''Unknown LLM: '' @ llm_name)), [])
      | Some config \<Rightarrow>
          retry_loop ev max_retries self config sig llm_name [0..<max_retries])"


section \<open>The similarity scorer (utils.py)\<close>

text \<open>
  \<^verbatim>\<open>SimilarityCalculator.calculate_similarity\<close> embeds two texts and returns a float;
  it catches every exception of its own and returns \<^verbatim>\<open>0.0\<close> then, so it is a total
  function of its two arguments: the parameter \<open>calc\<close>.

  A string method called on a value that is not a string raises \<^verbatim>\<open>AttributeError\<close>;
  \<^verbatim>\<open>+\<close> between a string and a value that is not a string raises \<^verbatim>\<open>TypeError\<close>.
\<close>

fun str_method :: "json \<Rightarrow> py_exn + string" where
  "str_method (JStr s) = Inr s"
| "str_method JNull = Inl AttributeError"
| "str_method (JBool b) = Inl AttributeError"
| "str_method (JInt i) = Inl AttributeError"
| "str_method (JFloat x) = Inl AttributeError"
| "str_method (JList xs) = Inl AttributeError"
| "str_method (JDict kvs) = Inl AttributeError"

fun str_operand :: "json \<Rightarrow> py_exn + string" where
  "str_operand (JStr s) = Inr s"
| "str_operand JNull = Inl TypeError"
| "str_operand (JBool b) = Inl TypeError"
| "str_operand (JInt i) = Inl TypeError"
| "str_operand (JFloat x) = Inl TypeError"
| "str_operand (JList xs) = Inl TypeError"
| "str_operand (JDict kvs) = Inl TypeError"

text \<open>\<^verbatim>\<open>record["return_values"][key]\<close>.\<close>

definition return_value :: "json \<Rightarrow> string \<Rightarrow> py_exn + json" where
  "return_value r k = bind_exn (py_getitem r ''return_values'') (\<lambda>rv. py_getitem rv k)"

text \<open>
  \<^verbatim>\<open>r["purpose_behavior"] + " Returns " + r["return_values"]["type"] + ": " +
  r["return_values"]["description"]\<close>, evaluated left to right.
\<close>

definition combined_text :: "json \<Rightarrow> py_exn + string" where
  "combined_text r =
     bind_exn (py_getitem r ''purpose_behavior'') (\<lambda>pb.
     bind_exn (str_operand pb) (\<lambda>pb_s.
     bind_exn (return_value r ''type'') (\<lambda>ty.
     bind_exn (str_operand ty) (\<lambda>ty_s.
     bind_exn (return_value r ''description'') (\<lambda>de.
     bind_exn (str_operand de) (\<lambda>de_s.
     Inr (pb_s @ '' Returns '' @ ty_s @ '': '' @ de_s)))))))"

text \<open>The body of the \<^verbatim>\<open>try\<close> of \<^verbatim>\<open>calculate_method_similarity\<close>, statement by statement.\<close>

definition similarity_body ::
  "(json \<Rightarrow> json \<Rightarrow> real) \<Rightarrow> json \<Rightarrow> json \<Rightarrow> py_exn + similarity_scores" where
  "similarity_body calc gt llm_response =
     bind_exn (py_getitem gt ''purpose_behavior'') (\<lambda>gt_pb.
     bind_exn (py_getitem llm_response ''purpose_behavior'') (\<lambda>llm_pb.
     bind_exn (return_value gt ''type'') (\<lambda>gt_ty.
     bind_exn (str_method gt_ty) (\<lambda>gt_ty_s.
     bind_exn (return_value llm_response ''type'') (\<lambda>llm_ty.
     bind_exn (str_method llm_ty) (\<lambda>llm_ty_s.
     bind_exn (return_value gt ''description'') (\<lambda>gt_de.
     bind_exn (return_value llm_response ''description'') (\<lambda>llm_de.
     bind_exn (combined_text gt) (\<lambda>gt_combined.
     bind_exn (combined_text llm_response) (\<lambda>llm_combined.
     Inr \<lparr>purpose_similarity = calc gt_pb llm_pb,
          return_type_match = (py_strip (py_lower gt_ty_s) = py_strip (py_lower llm_ty_s)),
          return_desc_similarity = calc gt_de llm_de,
          overall_similarity = calc (JStr gt_combined) (JStr llm_combined),
          sim_success = True,
          sim_error = None\<rparr>))))))))))"

definition calculate_method_similarity ::
  "(json \<Rightarrow> json \<Rightarrow> real) \<Rightarrow> json \<Rightarrow> json \<Rightarrow> similarity_scores" where
  "calculate_method_similarity calc gt llm_response =
     (case similarity_body calc gt llm_response of
        Inr scores \<Rightarrow> scores
      | Inl e \<Rightarrow>
          \<lparr>purpose_similarity = 0, return_type_match = False, return_desc_similarity = 0,
           overall_similarity = 0, sim_success = False, sim_error = Some e\<rparr>)"

section \<open>The orchestrator (evaluator.py)\<close>

text \<open>
  The collaborators of \<^verbatim>\<open>run_full_evaluation\<close>: \<open>load_results\<close> is
  \<^verbatim>\<open>load_ground_truth\<close> applied to the resume file (the decoded result set, or the
  exception of the read or of the decoder); \<open>evaluate\<close> is
  \<^verbatim>\<open>self.llm_interface.evaluate_method\<close>, with the events it causes;
  \<open>similarity_calc\<close> is \<^verbatim>\<open>self.similarity_calc\<close>; \<open>datetime_now\<close> is the clock read
  when the entry of a signature is created.
\<close>

record collaborators =
  load_results :: "string \<Rightarrow> py_exn + results"
  evaluate :: "string \<Rightarrow> string \<Rightarrow> (py_exn + llm_result) \<times> event list"
  similarity_calc :: "json \<Rightarrow> json \<Rightarrow> real"
  datetime_now :: "string \<Rightarrow> string"

text \<open>The dict stored when the evaluation of one backend raised.\<close>

definition exception_result :: "string \<Rightarrow> py_exn \<Rightarrow> llm_result" where
  "exception_result llm_name e =
     \<lparr>llm = llm_name, method_signature = None, raw_response = None, parsed_response = None,
      success = False, error = Some e, attempt = None, timestamp = None\<rparr>"

text \<open>
  The body of \<^verbatim>\<open>for llm_name in LLM_CONFIGS.keys()\<close> for one backend, on the entry
  of the current signature: the whole body is a \<^verbatim>\<open>try\<close>; the result is stored before
  \<^verbatim>\<open>llm_result["success"]\<close> is read, and \<^verbatim>\<open>llm_result["parsed_response"]\<close> raises
  \<^verbatim>\<open>KeyError\<close> on a successful result without that key, which the handler records
  over the stored result.
\<close>

definition record_llm ::
  "collaborators \<Rightarrow> json \<Rightarrow> string \<Rightarrow> py_exn + llm_result \<Rightarrow> method_result \<Rightarrow> method_result" where
  "record_llm c method_data llm_name returned entry =
     (case returned of
        Inl e \<Rightarrow>
          entry\<lparr>llm_responses := AList.update llm_name (exception_result llm_name e) (llm_responses entry)\<rparr>
      | Inr llm_result \<Rightarrow>
          let stored = entry\<lparr>llm_responses := AList.update llm_name llm_result (llm_responses entry)\<rparr>
          in if success llm_result then
               (case parsed_response llm_result of
                  None \<Rightarrow>
                    stored\<lparr>llm_responses :=
                      AList.update llm_name (exception_result llm_name (KeyError ''parsed_response''))
                        (llm_responses stored)\<rparr>
                | Some parsed \<Rightarrow>
                    stored\<lparr>similarities :=
                      AList.update llm_name
                        (calculate_method_similarity (similarity_calc c) method_data parsed)
                        (similarities stored)\<rparr>)
             else stored)"

fun evaluate_llms ::
  "collaborators \<Rightarrow> string \<Rightarrow> json \<Rightarrow> string list \<Rightarrow> method_result \<Rightarrow> method_result \<times> event list" where
  "evaluate_llms c sig method_data [] entry = (entry, [])"
| "evaluate_llms c sig method_data (llm_name # names) entry =
     (let returned = evaluate c sig llm_name;
          rest = evaluate_llms c sig method_data names
                   (record_llm c method_data llm_name (fst returned) entry)
      in (fst rest, snd returned @ snd rest))"

text \<open>The entry \<^verbatim>\<open>self.results[signature]\<close> is initialised with.\<close>

definition new_entry :: "collaborators \<Rightarrow> method_info \<Rightarrow> method_result" where
  "new_entry c mi =
     \<lparr>category = method_category mi, ground_truth = data mi,
      llm_responses = [], similarities = [],
      evaluation_timestamp = datetime_now c (signature mi)\<rparr>"

text \<open>
  The loop \<^verbatim>\<open>for idx, method_info in enumerate(methods_list)\<close>. \<open>interval\<close> is the module
  constant \<open>PROGRESS_SAVE_INTERVAL\<close> and \<open>llm_names\<close> is \<^verbatim>\<open>LLM_CONFIGS.keys()\<close>. A
  signature already in the results is skipped with \<^verbatim>\<open>continue\<close>, which also passes
  over the periodic save at the end of the body. \<^verbatim>\<open>(idx + 1) % 0\<close> raises. The value
  is the exception that ended the loop, if any, and the results.
\<close>

fun methods_loop ::
  "collaborators \<Rightarrow> nat \<Rightarrow> string list \<Rightarrow> string \<Rightarrow> nat \<Rightarrow> method_info list \<Rightarrow> results \<Rightarrow>
   (py_exn option \<times> results) \<times> event list" where
  "methods_loop c interval llm_names output_dir idx [] res = ((None, res), [])"
| "methods_loop c interval llm_names output_dir idx (mi # rest) res =
     (if map_of res (signature mi) \<noteq> None then
        methods_loop c interval llm_names output_dir (idx + 1) rest res
      else
        let created = new_entry c mi;
            evaluated = evaluate_llms c (signature mi) (data mi) llm_names created;
            res1 = AList.update (signature mi) (fst evaluated)
                     (AList.update (signature mi) created res)
        in if interval = 0 then ((Some ZeroDivisionError, res1), snd evaluated)
           else
             let saved = (if (idx + 1) mod interval = 0
                          then [SaveJson (output_dir @ ''/progress_backup.json'') res1] else []);
                 continued = methods_loop c interval llm_names output_dir (idx + 1) rest res1
             in (fst continued, snd evaluated @ saved @ snd continued))"

text \<open>
  \<^verbatim>\<open>run_full_evaluation\<close> on an evaluator whose \<^verbatim>\<open>self.results\<close> is \<open>self_results\<close>
  (empty after construction) and whose method list is \<open>methods_list\<close>. An empty
  \<^verbatim>\<open>resume_from\<close> is falsy. After the loop, \<^verbatim>\<open>_save_final_results\<close> writes the results
  and then the summary, whose success rates divide by \<^verbatim>\<open>len(self.results)\<close>.
\<close>

definition run_full_evaluation ::
  "collaborators \<Rightarrow> nat \<Rightarrow> string list \<Rightarrow> method_info list \<Rightarrow> results \<Rightarrow> string \<Rightarrow> string option \<Rightarrow>
   (py_exn option \<times> results) \<times> event list" where
  "run_full_evaluation c interval llm_names methods_list self_results output_dir resume_from =
     (let resumed =
            (case resume_from of
               None \<Rightarrow> (self_results, [])
             | Some path \<Rightarrow>
                 if path = [] then (self_results, [])
                 else (case load_results c path of
                         Inr loaded \<Rightarrow> (loaded, [])
                       | Inl e \<Rightarrow> (self_results, [WarnCouldNotResume path e])));
          looped = methods_loop c interval llm_names output_dir 0 methods_list (fst resumed);
          res = snd (fst looped);
          final_save = [SaveJson (output_dir @ ''/full_results.json'') res]
      in case fst (fst looped) of
           Some e \<Rightarrow> ((Some e, res), snd resumed @ snd looped)
         | None \<Rightarrow>
             if length res = 0 \<and> llm_names \<noteq> [] then
               ((Some ZeroDivisionError, res), snd resumed @ snd looped @ final_save)
             else
               ((None, res),
                snd resumed @ snd looped @ final_save
                  @ [SaveSummary (output_dir @ ''/summary_statistics.json'')]))"

text \<open>The evaluator as the program builds it: the interface's retry loop behind the
  orchestrator, with the constants of the configuration.\<close>

definition LLM_INTERFACE :: "string \<Rightarrow> llm_interface" where
  "LLM_INTERFACE api_key =
     \<lparr>openai_api_key = api_key, ollama_base_url = OLLAMA_BASE_URL, llm_configs = LLM_CONFIGS\<rparr>"


section \<open>Reading a trace\<close>

text \<open>The durations slept, the requests posted and the files of results written, in order.\<close>

fun sleeps :: "event list \<Rightarrow> real list" where
  "sleeps [] = []"
| "sleeps (Sleep d # es) = d # sleeps es"
| "sleeps (e # es) = sleeps es"

fun posts :: "event list \<Rightarrow> http_request list" where
  "posts [] = []"
| "posts (Post r # es) = r # posts es"
| "posts (e # es) = posts es"


text \<open>Everything one pass of the retry loop does: the backoff sleep of a retry, then the
  events of the query.\<close>

definition attempt_events ::
  "env \<Rightarrow> llm_interface \<Rightarrow> llm_config \<Rightarrow> string \<Rightarrow> string \<Rightarrow> nat \<Rightarrow> event list" where
  "attempt_events ev self config sig llm_name att =
     (if att > 0 then [Sleep (2 ^ att)] else []) @ snd (attempt_body ev self config sig llm_name att)"

text \<open>
  What the loop over the backends leaves under one backend name, read off
  \<^verbatim>\<open>run_full_evaluation\<close>: the response stored for what the evaluation returned or
  raised, and the score stored, if one is.
\<close>

definition stored_response :: "string \<Rightarrow> py_exn + llm_result \<Rightarrow> llm_result" where
  "stored_response llm_name returned =
     (case returned of
        Inl e \<Rightarrow> exception_result llm_name e
      | Inr r \<Rightarrow> if success r \<and> parsed_response r = None
                 then exception_result llm_name (KeyError ''parsed_response'') else r)"

definition stored_score ::
  "collaborators \<Rightarrow> json \<Rightarrow> py_exn + llm_result \<Rightarrow> similarity_scores option" where
  "stored_score c method_data returned =
     (case returned of
        Inl e \<Rightarrow> None
      | Inr r \<Rightarrow> if success r
                 then map_option (calculate_method_similarity (similarity_calc c) method_data)
                        (parsed_response r)
                 else None)"

section \<open>Example inputs\<close>

text \<open>A local backend that is down: every POST fails to connect.\<close>

definition env_down :: env where
  "env_down = \<lparr>json_loads = (\<lambda>s. Inl (JSONDecodeError ''Expecting value'')),
               requests_post = (\<lambda>llm_name sig att request. Inl ConnectionError),
               time_time = (\<lambda>llm_name sig att. 0)\<rparr>"

definition deepseek_config :: llm_config where
  "deepseek_config = \<lparr>llm_type = ''ollama'', model = ''deepseek-coder:6.7b'', temperature = 0.1,
                       max_tokens = None, rate_limit_delay = Some 0.5\<rparr>"

definition cannot_connect :: py_exn where
  "cannot_connect = Exception ''Cannot connect to Ollama. Make sure Ollama is running locally.''"

text \<open>
  A hosted backend that answers every request with status 200 and one message whose
  content is the text \<open>content\<close>; the decoder reads the body of that response, reads
  \<open>content\<close> itself as \<open>decoded\<close>, and rejects every other text.
\<close>

definition json_escape :: "string \<Rightarrow> string" where
  "json_escape s = concat (map (\<lambda>ch. if ch = CHR 0x22 then [CHR 0x5C, CHR 0x22] else [ch]) s)"

definition hosted_body :: "string \<Rightarrow> string" where
  "hosted_body content =
     ''{\"choices\": [{\"message\": {\"content\": \"'' @ json_escape content @ ''\"}}]}''"

definition env_hosted :: "string \<Rightarrow> json \<Rightarrow> env" where
  "env_hosted content decoded =
     \<lparr>json_loads = (\<lambda>s. if s = hosted_body content
                         then Inr (JDict [(''choices'',
                                JList [JDict [(''message'', JDict [(''content'', JStr content)])]])])
                         else if s = content then Inr decoded
                         else Inl (JSONDecodeError ''Expecting value'')),
      requests_post = (\<lambda>llm_name sig att request.
                         Inr \<lparr>status_code = 200, resp_text = hosted_body content\<rparr>),
      time_time = (\<lambda>llm_name sig att. 0)\<rparr>"

definition gpt4o_config :: llm_config where
  "gpt4o_config = \<lparr>llm_type = ''openai'', model = ''gpt-4o'', temperature = 0.1,
                    max_tokens = Some 1000, rate_limit_delay = Some 1\<rparr>"

text \<open>A ground-truth record, a method list of two, and numbered method lists.\<close>

definition parse_int_truth :: json where
  "parse_int_truth =
     JDict [(''signature'', JStr ''int parseIntInput(String)''),
            (''purpose_behavior'', JStr ''Parses the text as an int''),
            (''return_values'', JDict [(''type'', JStr ''int''),
                                      (''description'', JStr ''the parsed value'')])]"

definition parse_int_method :: method_info where
  "parse_int_method =
     \<lparr>signature = ''int parseIntInput(String)'', method_category = ''parsing'',
      data = parse_int_truth\<rparr>"

definition close_method :: method_info where
  "close_method =
     \<lparr>signature = ''void close()'', method_category = ''io'',
      data = JDict [(''signature'', JStr ''void close()''),
                    (''purpose_behavior'', JStr ''Closes the stream''),
                    (''return_values'', JDict [(''type'', JStr ''void''),
                                              (''description'', JStr ''nothing'')])]\<rparr>"



text \<open>Collaborators: the interface as the program builds it, over a given outside world.\<close>

definition program_collaborators :: "env \<Rightarrow> (string \<Rightarrow> py_exn + results) \<Rightarrow> collaborators" where
  "program_collaborators ev load =
     \<lparr>load_results = load,
      evaluate = evaluate_method ev MAX_RETRIES (LLM_INTERFACE ''key''),
      similarity_calc = (\<lambda>a b. 0),
      datetime_now = (\<lambda>sig. ''2025-01-01T00:00:00'')\<rparr>"

definition no_file :: "string \<Rightarrow> py_exn + results" where
  "no_file path = Inl FileNotFoundError"


text \<open>The results of a first run over the two methods with every backend down, and the
  collaborators of a second run whose resume file holds them.\<close>

definition first_run_results :: results where
  "first_run_results =
     snd (fst (run_full_evaluation (program_collaborators env_down no_file) PROGRESS_SAVE_INTERVAL
                 (map fst LLM_CONFIGS) [parse_int_method, close_method] [] ''out'' None))"

definition second_run_collaborators :: collaborators where
  "second_run_collaborators =
     program_collaborators (env_hosted ''{}'' (JDict [])) (\<lambda>path. Inr first_run_results)"





text \<open>Two responses of the hosted backend.\<close>

definition created_response :: http_response where
  "created_response = \<lparr>status_code = 201, resp_text = hosted_body ''hi''\<rparr>"

definition unavailable_response :: http_response where
  "unavailable_response = \<lparr>status_code = 503, resp_text = ''Service Unavailable''\<rparr>"

definition hosted_empty_object :: collaborators where
  "hosted_empty_object = program_collaborators (env_hosted ''{}'' (JDict [])) no_file"

section \<open>Properties of the retry loop\<close>

lemma sleeps_append: "sleeps (xs @ ys) = sleeps xs @ sleeps ys"
  by (induction xs rule: sleeps.induct) auto


lemma query_openai_events:
  "sleeps (snd (query_openai loads post self prompt config)) = [] \<and>
   length (posts (snd (query_openai loads post self prompt config))) \<le> 1"
  by (simp add: query_openai_def Let_def split: option.splits)

lemma query_ollama_events:
  "sleeps (snd (query_ollama loads post self prompt config)) = [] \<and>
   length (posts (snd (query_ollama loads post self prompt config))) \<le> 1"
  by (simp add: query_ollama_def Let_def)

lemma attempt_body_events:
  "sleeps (snd (attempt_body ev self config sig llm_name att)) = [] \<and>
   length (posts (snd (attempt_body ev self config sig llm_name att))) \<le> 1"
  using query_openai_events query_ollama_events
  by (simp add: attempt_body_def query_llm_def Let_def)

lemma attempt_events_sleeps:
  "sleeps (attempt_events ev self config sig llm_name att) = (if att > 0 then [2 ^ att] else [])"
  by (simp add: attempt_events_def sleeps_append attempt_body_events)


lemma retry_loop_all_fail:
  assumes "\<And>i. a \<le> i \<Longrightarrow> i < k \<Longrightarrow> fst (attempt_body ev self config sig llm_name i) = Inl (err i)"
    and "a < k"
  shows "retry_loop ev k self config sig llm_name [a..<k] =
           (Inr (failure_result ev sig llm_name (k - 1) (err (k - 1))),
            concat (map (attempt_events ev self config sig llm_name) [a..<k]))"
  using assms
proof (induction "k - a" arbitrary: a)
  case 0
  then show ?case by simp
next
  case (Suc n)
  have fa: "fst (attempt_body ev self config sig llm_name a) = Inl (err a)"
    using Suc.prems by simp
  have up: "[a..<k] = a # [Suc a..<k]"
    using Suc.prems(2) by (simp add: upt_conv_Cons)
  show ?case
  proof (cases "Suc a < k")
    case True
    have ih: "retry_loop ev k self config sig llm_name [Suc a..<k] =
           (Inr (failure_result ev sig llm_name (k - 1) (err (k - 1))),
            concat (map (attempt_events ev self config sig llm_name) [Suc a..<k]))"
      using Suc.hyps(1)[of "Suc a"] Suc.hyps(2) Suc.prems(1) True by simp
    have lt: "int a < int k - 1" using True by simp
    show ?thesis
      unfolding up
      by (simp add: fa lt ih attempt_events_def Let_def del: upt_Suc)
  next
    case False
    then have ka: "k = Suc a" using Suc.prems(2) by simp
    show ?thesis
      by (simp add: ka fa attempt_events_def failure_result_def Let_def)
  qed
qed

lemma retry_loop_first_success:
  assumes "\<And>i. a \<le> i \<Longrightarrow> i < j \<Longrightarrow> \<exists>e. fst (attempt_body ev self config sig llm_name i) = Inl e"
    and "fst (attempt_body ev self config sig llm_name j) = Inr (raw, parsed)"
    and "a \<le> j" and "j < k"
  shows "retry_loop ev k self config sig llm_name [a..<k] =
           (Inr (success_result ev sig llm_name j raw parsed),
            concat (map (attempt_events ev self config sig llm_name) [a..<Suc j]))"
  using assms
proof (induction "j - a" arbitrary: a)
  case 0
  then have aj: "a = j" by simp
  have up: "[j..<k] = j # [Suc j..<k]"
    using 0 by (simp add: upt_conv_Cons)
  show ?case
    unfolding aj up
    using 0(3) by (simp add: attempt_events_def success_result_def Let_def)
next
  case (Suc n)
  then have lt: "a < j" by simp
  obtain e where fa: "fst (attempt_body ev self config sig llm_name a) = Inl e"
    using Suc.prems(1)[of a] lt by auto
  have up: "[a..<k] = a # [Suc a..<k]"
    using lt Suc.prems(4) by (simp add: upt_conv_Cons)
  have up2: "[a..<Suc j] = a # [Suc a..<Suc j]"
    using lt by (simp add: upt_conv_Cons)
  have ih: "retry_loop ev k self config sig llm_name [Suc a..<k] =
           (Inr (success_result ev sig llm_name j raw parsed),
            concat (map (attempt_events ev self config sig llm_name) [Suc a..<Suc j]))"
    using Suc.hyps(1)[of "Suc a"] Suc.hyps(2) Suc.prems lt by simp
  have lt2: "int a < int k - 1" using lt Suc.prems(4) by simp
  show ?case
    unfolding up up2
    by (simp add: fa lt2 ih attempt_events_def Let_def del: upt_Suc)
qed



lemma sleeps_attempts:
  "sleeps (concat (map (attempt_events ev self config sig llm_name) [0..<n])) = map (\<lambda>i. 2 ^ i) [1..<n]"
proof (induction n)
  case 0
  then show ?case by simp
next
  case (Suc n)
  show ?case
  proof (cases "n = 0")
    case True
    then show ?thesis by (simp add: attempt_events_sleeps)
  next
    case False
    then have "[1..<Suc n] = [1..<n] @ [n]" by simp
    then show ?thesis using Suc False by (simp add: sleeps_append attempt_events_sleeps)
  qed
qed



lemma attempt_down: "fst (attempt_body env_down (LLM_INTERFACE k) deepseek_config sig ''deepseek'' i) = Inl cannot_connect"
  by (simp add: attempt_body_def query_llm_def query_ollama_def env_down_def deepseek_config_def cannot_connect_def Let_def)

lemma cfg_deepseek: "map_of (llm_configs (LLM_INTERFACE k)) ''deepseek'' = Some deepseek_config"
  by (simp add: LLM_INTERFACE_def LLM_CONFIGS_def deepseek_config_def)


section \<open>Properties of the orchestrator\<close>

lemma record_llm_responses:
  "map_of (llm_responses (record_llm c d l ret entry)) l' =
     (if l' = l then Some (stored_response l ret) else map_of (llm_responses entry) l')"
  by (cases ret)
     (auto simp: record_llm_def stored_response_def Let_def update_conv' split: option.splits)

lemma record_llm_similarities:
  "map_of (similarities (record_llm c d l ret entry)) l' =
     (if l' = l then (case stored_score c d ret of Some s \<Rightarrow> Some s
                      | None \<Rightarrow> map_of (similarities entry) l')
      else map_of (similarities entry) l')"
  by (cases ret)
     (auto simp: record_llm_def stored_score_def Let_def update_conv' split: option.splits)


lemma evaluate_llms_responses:
  "map_of (llm_responses (fst (evaluate_llms c sig d names entry))) l =
     (if l \<in> set names then Some (stored_response l (fst (evaluate c sig l)))
      else map_of (llm_responses entry) l)"
proof (induction names arbitrary: entry)
  case Nil
  then show ?case by simp
next
  case (Cons n names)
  show ?case
    by (simp add: Let_def Cons.IH record_llm_responses)
qed

lemma evaluate_llms_similarities:
  "map_of (similarities (fst (evaluate_llms c sig d names entry))) l =
     (if l \<in> set names
      then (case stored_score c d (fst (evaluate c sig l)) of Some s \<Rightarrow> Some s
            | None \<Rightarrow> map_of (similarities entry) l)
      else map_of (similarities entry) l)"
proof (induction names arbitrary: entry)
  case Nil
  then show ?case by simp
next
  case (Cons n names)
  show ?case
    by (auto simp add: Let_def Cons.IH record_llm_similarities split: option.splits)
qed

lemma evaluate_llms_events:
  "snd (evaluate_llms c sig d names entry) = concat (map (\<lambda>l. snd (evaluate c sig l)) names)"
  by (induction names arbitrary: entry) (simp_all add: Let_def)

lemma methods_loop_keeps:
  "map_of res s = Some e \<Longrightarrow>
   map_of (snd (fst (methods_loop c interval names out idx ms res))) s = Some e"
proof (induction ms arbitrary: idx res)
  case Nil
  then show ?case by simp
next
  case (Cons mi ms)
  show ?case
  proof (cases "map_of res (signature mi) \<noteq> None")
    case True
    then show ?thesis using Cons by simp
  next
    case False
    then have ne: "s \<noteq> signature mi" using Cons.prems by auto
    let ?res1 = "AList.update (signature mi)
                   (fst (evaluate_llms c (signature mi) (data mi) names (new_entry c mi)))
                   (AList.update (signature mi) (new_entry c mi) res)"
    have "map_of ?res1 s = Some e" using ne Cons.prems by (simp add: update_conv')
    then show ?thesis using False Cons.IH[of ?res1 "idx + 1"] by (simp add: Let_def)
  qed
qed

lemma methods_loop_no_exception:
  "0 < interval \<Longrightarrow> fst (fst (methods_loop c interval names out idx ms res)) = None"
  by (induction ms arbitrary: idx res) (simp_all add: Let_def)

lemma methods_loop_covers:
  "fst (fst (methods_loop c interval names out idx ms res)) = None \<Longrightarrow> mi \<in> set ms \<Longrightarrow>
   map_of (snd (fst (methods_loop c interval names out idx ms res))) (signature mi) \<noteq> None"
proof (induction ms arbitrary: idx res)
  case Nil
  then show ?case by simp
next
  case (Cons m ms)
  let ?res1 = "AList.update (signature m)
                 (fst (evaluate_llms c (signature m) (data m) names (new_entry c m)))
                 (AList.update (signature m) (new_entry c m) res)"
  show ?case
  proof (cases "map_of res (signature m) \<noteq> None")
    case True
    show ?thesis
    proof (cases "mi = m")
      case True
      obtain e where "map_of res (signature m) = Some e" using \<open>map_of res (signature m) \<noteq> None\<close> by auto
      then show ?thesis using True methods_loop_keeps[of res "signature m" e] by simp
    next
      case False
      then show ?thesis using True Cons by simp
    qed
  next
    case False
    have i0: "interval \<noteq> 0" using Cons.prems(1) False by (auto simp: Let_def split: if_splits)
    have ex: "fst (fst (methods_loop c interval names out (idx + 1) ms ?res1)) = None"
      using Cons.prems(1) False i0 by (simp add: Let_def)
    show ?thesis
    proof (cases "mi = m")
      case True
      have "map_of ?res1 (signature m) = Some (fst (evaluate_llms c (signature m) (data m) names (new_entry c m)))"
        by (simp add: update_conv')
      then show ?thesis using True False i0 methods_loop_keeps[of ?res1] by (simp add: Let_def)
    next
      case False
      then have "mi \<in> set ms" using Cons.prems(2) by simp
      then show ?thesis using Cons.IH[OF ex] \<open>\<not> map_of res (signature m) \<noteq> None\<close> i0 by (simp add: Let_def)
    qed
  qed
qed

lemma methods_loop_all_present:
  "(\<And>mi. mi \<in> set ms \<Longrightarrow> map_of res (signature mi) \<noteq> None) \<Longrightarrow>
   methods_loop c interval names out idx ms res = ((None, res), [])"
  by (induction ms arbitrary: idx) simp_all

lemma methods_loop_fresh:
  assumes "0 < interval" and "mi \<in> set ms" and "map_of res (signature mi) = None"
    and "distinct (map signature ms)"
  shows "map_of (snd (fst (methods_loop c interval names out idx ms res))) (signature mi) =
           Some (fst (evaluate_llms c (signature mi) (data mi) names (new_entry c mi)))"
  using assms
proof (induction ms arbitrary: idx res)
  case Nil
  then show ?case by simp
next
  case (Cons m ms)
  let ?res1 = "AList.update (signature m)
                 (fst (evaluate_llms c (signature m) (data m) names (new_entry c m)))
                 (AList.update (signature m) (new_entry c m) res)"
  show ?case
  proof (cases "mi = m")
    case True
    have "map_of ?res1 (signature m) = Some (fst (evaluate_llms c (signature m) (data m) names (new_entry c m)))"
      by (simp add: update_conv')
    then show ?thesis
      using True Cons.prems(1,3) methods_loop_keeps[of ?res1] by (simp add: Let_def)
  next
    case False
    then have in_ms: "mi \<in> set ms" using Cons.prems(2) by simp
    have "signature mi \<in> set (map signature ms)" using in_ms by simp
    then have ne: "signature mi \<noteq> signature m" using Cons.prems(4) by auto
    have d: "distinct (map signature ms)" using Cons.prems(4) by simp
    show ?thesis
    proof (cases "map_of res (signature m) \<noteq> None")
      case True
      then show ?thesis using Cons.IH[OF Cons.prems(1) in_ms Cons.prems(3) d] by simp
    next
      case False
      have "map_of ?res1 (signature mi) = None" using ne Cons.prems(3) by (simp add: update_conv')
      then show ?thesis
        using False Cons.prems(1) Cons.IH[OF Cons.prems(1) in_ms _ d, of ?res1 "idx + 1"]
        by (simp add: Let_def)
    qed
  qed
qed


lemma methods_loop_nonempty:
  assumes "fst (fst (methods_loop c interval names out idx ms res)) = None" and "ms \<noteq> []"
  shows "snd (fst (methods_loop c interval names out idx ms res)) \<noteq> []"
proof -
  obtain m where "m \<in> set ms" using assms(2) by (cases ms) auto
  then have "map_of (snd (fst (methods_loop c interval names out idx ms res))) (signature m) \<noteq> None"
    using methods_loop_covers[OF assms(1)] by blast
  then show ?thesis by auto
qed

lemma run_without_resume:
  "run_full_evaluation c interval names ms r0 out None =
     (let looped = methods_loop c interval names out 0 ms r0;
          res = snd (fst looped)
      in case fst (fst looped) of
           Some e \<Rightarrow> ((Some e, res), snd looped)
         | None \<Rightarrow>
             if length res = 0 \<and> names \<noteq> [] then
               ((Some ZeroDivisionError, res),
                snd looped @ [SaveJson (out @ ''/full_results.json'') res])
             else
               ((None, res),
                snd looped @ [SaveJson (out @ ''/full_results.json'') res,
                              SaveSummary (out @ ''/summary_statistics.json'')]))"
  by (simp add: run_full_evaluation_def Let_def split: option.splits)

lemma run_failed_resume:
  assumes "load_results c path = Inl e" and "path \<noteq> []"
  shows "run_full_evaluation c interval names ms r0 out (Some path) =
           (fst (run_full_evaluation c interval names ms r0 out None),
            WarnCouldNotResume path e # snd (run_full_evaluation c interval names ms r0 out None))"
  using assms by (simp add: run_full_evaluation_def Let_def split: option.splits)

lemma run_resumed:
  assumes "load_results c path = Inr loaded" and "path \<noteq> []"
  shows "run_full_evaluation c interval names ms r0 out (Some path) =
           run_full_evaluation c interval names ms loaded out None"
  using assms by (simp add: run_full_evaluation_def Let_def split: option.splits)

lemma run_completes:
  assumes "0 < interval" and "ms \<noteq> []"
  shows "fst (fst (run_full_evaluation c interval names ms r0 out None)) = None \<and>
         snd (fst (run_full_evaluation c interval names ms r0 out None)) =
           snd (fst (methods_loop c interval names out 0 ms r0))"
proof -
  have ex: "fst (fst (methods_loop c interval names out 0 ms r0)) = None"
    using assms(1) by (rule methods_loop_no_exception)
  have ne: "snd (fst (methods_loop c interval names out 0 ms r0)) \<noteq> []"
    using ex assms(2) by (rule methods_loop_nonempty)
  show ?thesis using ex ne by (simp add: run_without_resume Let_def)
qed

text \<open>
  Claim C10 (an unreadable resume file). When \<^verbatim>\<open>load_ground_truth(resume_from)\<close> raises,
  \<^verbatim>\<open>run_full_evaluation\<close> on a newly constructed evaluator (empty results) logs the
  warning and otherwise returns exactly what the run without \<^verbatim>\<open>resume_from\<close> returns:
  the same outcome, the same results, the same events after the warning. With a
  positive save interval and a non-empty method list (the constructor checks the
  latter) that outcome is a normal return.
\<close>

theorem failed_resume_is_fresh_run:
  assumes "load_results c path = Inl e" and "path \<noteq> []"
  shows "run_full_evaluation c interval names ms [] out (Some path) =
           (fst (run_full_evaluation c interval names ms [] out None),
            WarnCouldNotResume path e # snd (run_full_evaluation c interval names ms [] out None)) \<and>
         (0 < interval \<and> ms \<noteq> [] \<longrightarrow>
            fst (fst (run_full_evaluation c interval names ms [] out (Some path))) = None)"
  using run_failed_resume[OF assms] run_completes[of interval ms c names "[]" out] by simp

text \<open>
  Claim C2 (resume is idempotent). Let a run return normally with the result set \<open>R\<close>,
  and let the resume file of a second run over the same method list and backend names
  decode to \<open>R\<close>. Then the loop of the second run skips every entry: it returns \<open>R\<close>
  unchanged and causes no event at all, whatever the collaborators of the second run
  would answer, so no backend is queried; the second run writes \<open>R\<close> and the summary
  and returns \<open>R\<close>.
\<close>

theorem resume_is_idempotent:
  assumes "run_full_evaluation c1 interval names ms r0 out1 resume1 = ((None, R), tr1)"
    and "load_results c2 path = Inr R" and "path \<noteq> []"
  shows "methods_loop c2 interval names out2 0 ms R = ((None, R), []) \<and>
         run_full_evaluation c2 interval names ms r0' out2 (Some path) =
           ((None, R), [SaveJson (out2 @ ''/full_results.json'') R,
                        SaveSummary (out2 @ ''/summary_statistics.json'')])"
proof -
  define start where "start =
     (case resume1 of None \<Rightarrow> r0
      | Some p \<Rightarrow> if p = [] then r0
                  else (case load_results c1 p of Inr loaded \<Rightarrow> loaded | Inl e \<Rightarrow> r0))"
  let ?loop1 = "methods_loop c1 interval names out1 0 ms start"
  have shape: "fst (run_full_evaluation c1 interval names ms r0 out1 resume1) =
     (case fst (fst ?loop1) of
        Some e \<Rightarrow> (Some e, snd (fst ?loop1))
      | None \<Rightarrow> if length (snd (fst ?loop1)) = 0 \<and> names \<noteq> []
                then (Some ZeroDivisionError, snd (fst ?loop1))
                else (None, snd (fst ?loop1)))"
    by (simp add: run_full_evaluation_def start_def Let_def split: option.splits sum.splits)
  have fin: "fst (run_full_evaluation c1 interval names ms r0 out1 resume1) = (None, R)"
    using assms(1) by simp
  have ex1: "fst (fst ?loop1) = None"
  proof (cases "fst (fst ?loop1)")
    case None
    then show ?thesis .
  next
    case (Some e)
    then have "fst (run_full_evaluation c1 interval names ms r0 out1 resume1) = (Some e, snd (fst ?loop1))"
      using shape by simp
    then show ?thesis using fin by simp
  qed
  have shape2: "fst (run_full_evaluation c1 interval names ms r0 out1 resume1) =
     (if length (snd (fst ?loop1)) = 0 \<and> names \<noteq> []
      then (Some ZeroDivisionError, snd (fst ?loop1)) else (None, snd (fst ?loop1)))"
    using shape ex1 by simp
  have ok1: "\<not> (length (snd (fst ?loop1)) = 0 \<and> names \<noteq> [])"
  proof
    assume "length (snd (fst ?loop1)) = 0 \<and> names \<noteq> []"
    then have "fst (run_full_evaluation c1 interval names ms r0 out1 resume1) =
                 (Some ZeroDivisionError, snd (fst ?loop1))"
      using shape2 by simp
    then show False using fin by simp
  qed
  then have "fst (run_full_evaluation c1 interval names ms r0 out1 resume1) = (None, snd (fst ?loop1))"
    using shape2 by simp
  then have R: "snd (fst ?loop1) = R" using fin by simp
  have ok: "\<not> (length R = 0 \<and> names \<noteq> [])" using ok1 R by simp
  have present: "map_of R (signature mi) \<noteq> None" if "mi \<in> set ms" for mi
    using methods_loop_covers[OF ex1 that] R by simp
  have loop2: "methods_loop c2 interval names out2 0 ms R = ((None, R), [])"
    using present by (rule methods_loop_all_present)
  have "run_full_evaluation c2 interval names ms r0' out2 (Some path) =
          run_full_evaluation c2 interval names ms R out2 None"
    using assms(2,3) by (rule run_resumed)
  also have "\<dots> = ((None, R), [SaveJson (out2 @ ''/full_results.json'') R,
                        SaveSummary (out2 @ ''/summary_statistics.json'')])"
    using ok by (simp add: run_without_resume loop2 Let_def)
  finally show ?thesis using loop2 by simp
qed


section \<open>Checkpoint cadence\<close>











section \<open>The parser on a number\<close>

lemma strip_plain: "strip_fence ''42'' = ''42''" "strip_fence ''{}'' = ''{}''"
  by (simp_all add: strip_fence_def py_strip_def is_space_def startswith_def)

lemma parse_number:
  "parse_llm_response (json_loads (env_hosted ''42'' (JInt 42))) ''42'' = Inl TypeError"
  by (simp add: parse_llm_response_def strip_plain env_hosted_def hosted_body_def validate_fields_def)

text \<open>
  Claim C1 (the parser is total) fails on the code: on the text \<^verbatim>\<open>42\<close>, which decodes to
  a number, the membership test \<^verbatim>\<open>"purpose_behavior" not in parsed\<close> raises
  \<^verbatim>\<open>TypeError\<close>, which neither handler of \<^verbatim>\<open>parse_llm_response\<close> catches.
\<close>

theorem parse_llm_response_raises_on_number:
  "parse_llm_response (json_loads (env_hosted ''42'' (JInt 42))) ''42'' = Inl TypeError"
  by (simp add: parse_llm_response_def strip_plain env_hosted_def hosted_body_def validate_fields_def)

lemma cfg_gpt4o: "map_of (llm_configs (LLM_INTERFACE key)) ''gpt4o'' = Some gpt4o_config"
  by (simp add: LLM_INTERFACE_def LLM_CONFIGS_def gpt4o_config_def)

lemma query_hosted:
  "fst (query_llm (env_hosted content decoded) (LLM_INTERFACE key) gpt4o_config sig ''gpt4o'' i)
     = Inr (JStr content)"
  by (simp add: query_llm_def query_openai_def gpt4o_config_def env_hosted_def Let_def
        first_message_content_def)

lemma attempt_number:
  "fst (attempt_body (env_hosted ''42'' (JInt 42)) (LLM_INTERFACE key) gpt4o_config sig ''gpt4o'' i)
     = Inl TypeError"
  using parse_number
  by (simp add: attempt_body_def query_hosted parse_raw_def Let_def)

lemma parse_empty_object:
  "parse_llm_response (json_loads (env_hosted ''{}'' (JDict []))) ''{}''
     = Inr (validation_error_record ''Missing 'purpose_behavior' field'')"
  by (simp add: parse_llm_response_def strip_plain env_hosted_def hosted_body_def validate_fields_def)

lemma attempt_empty_object:
  "fst (attempt_body (env_hosted ''{}'' (JDict [])) (LLM_INTERFACE key) gpt4o_config sig ''gpt4o'' i)
     = Inr (JStr ''{}'', validation_error_record ''Missing 'purpose_behavior' field'')"
  by (simp add: attempt_body_def query_hosted parse_raw_def Let_def parse_empty_object)

section \<open>Requests that end in success or in failure\<close>

lemma evaluate_all_fail:
  assumes "map_of (llm_configs self) l = Some config" and "0 < k"
    and "\<And>i. i < k \<Longrightarrow> fst (attempt_body ev self config sig l i) = Inl (err i)"
  shows "evaluate_method ev k self sig l =
           (Inr (failure_result ev sig l (k - 1) (err (k - 1))),
            concat (map (attempt_events ev self config sig l) [0..<k]))"
  using retry_loop_all_fail[of 0 k ev self config sig l err] assms
  by (simp add: evaluate_method_def)

lemma evaluate_first_success:
  assumes "map_of (llm_configs self) l = Some config" and "j < k"
    and "\<And>i. i < j \<Longrightarrow> \<exists>e. fst (attempt_body ev self config sig l i) = Inl e"
    and "fst (attempt_body ev self config sig l j) = Inr (raw, parsed)"
  shows "evaluate_method ev k self sig l =
           (Inr (success_result ev sig l j raw parsed),
            concat (map (attempt_events ev self config sig l) [0..<Suc j]))"
  using retry_loop_first_success[of 0 j ev self config sig l raw parsed k] assms
  by (simp add: evaluate_method_def)

lemma evaluate_down:
  "evaluate_method env_down MAX_RETRIES (LLM_INTERFACE key) sig ''deepseek'' =
     (Inr (failure_result env_down sig ''deepseek'' 2 cannot_connect),
      concat (map (attempt_events env_down (LLM_INTERFACE key) deepseek_config sig ''deepseek'')
                  [0..<MAX_RETRIES]))"
  using evaluate_all_fail[OF cfg_deepseek, where k = MAX_RETRIES and k1 = key and ev = env_down
          and sig = sig and err = "\<lambda>i. cannot_connect"]
  by (simp add: attempt_down MAX_RETRIES_def)

lemma evaluate_empty_object:
  "evaluate_method (env_hosted ''{}'' (JDict [])) MAX_RETRIES (LLM_INTERFACE key) sig ''gpt4o'' =
     (Inr (success_result (env_hosted ''{}'' (JDict [])) sig ''gpt4o'' 0 (JStr ''{}'')
             (validation_error_record ''Missing 'purpose_behavior' field'')),
      concat (map (attempt_events (env_hosted ''{}'' (JDict [])) (LLM_INTERFACE key) gpt4o_config
                     sig ''gpt4o'') [0..<Suc 0]))"
  using evaluate_first_success[OF cfg_gpt4o, where j = 0 and k = MAX_RETRIES and key1 = key
          and ev = "env_hosted ''{}'' (JDict [])" and sig = sig]
  by (simp add: attempt_empty_object MAX_RETRIES_def)

lemma evaluate_number:
  "evaluate_method (env_hosted ''42'' (JInt 42)) MAX_RETRIES (LLM_INTERFACE key) sig ''gpt4o'' =
     (Inr (failure_result (env_hosted ''42'' (JInt 42)) sig ''gpt4o'' 2 TypeError),
      concat (map (attempt_events (env_hosted ''42'' (JInt 42)) (LLM_INTERFACE key) gpt4o_config
                     sig ''gpt4o'') [0..<MAX_RETRIES]))"
  using evaluate_all_fail[OF cfg_gpt4o, where k = MAX_RETRIES and key1 = key
          and ev = "env_hosted ''42'' (JInt 42)" and sig = sig and err = "\<lambda>i. TypeError"]
  by (simp add: attempt_number MAX_RETRIES_def)

text \<open>
  Claim C4 (the delay after every logical request) fails on the code: both \<^verbatim>\<open>return\<close>
  statements of \<^verbatim>\<open>evaluate_method\<close> stand inside the retry loop, so the sleep for
  \<^verbatim>\<open>rate_limit_delay\<close> after the loop is never reached when \<open>MAX_RETRIES \<ge> 1\<close>. A hosted
  backend that answers at the first attempt (delay 1 configured): success, and nothing is
  slept. A local backend that is down (delay 0.5 configured): failure after the backoff
  sleeps 2 and 4 only.
\<close>

theorem no_rate_limit_sleep:
  "rate_limit_delay gpt4o_config = Some 1 \<and>
   (\<exists>r. fst (evaluate_method (env_hosted ''{}'' (JDict [])) MAX_RETRIES (LLM_INTERFACE ''key'')
               ''int parseIntInput(String)'' ''gpt4o'') = Inr r \<and> success r) \<and>
   sleeps (snd (evaluate_method (env_hosted ''{}'' (JDict [])) MAX_RETRIES (LLM_INTERFACE ''key'')
               ''int parseIntInput(String)'' ''gpt4o'')) = [] \<and>
   rate_limit_delay deepseek_config = Some 0.5 \<and>
   (\<exists>r. fst (evaluate_method env_down MAX_RETRIES (LLM_INTERFACE ''key'')
               ''int parseIntInput(String)'' ''deepseek'') = Inr r \<and> \<not> success r) \<and>
   sleeps (snd (evaluate_method env_down MAX_RETRIES (LLM_INTERFACE ''key'')
               ''int parseIntInput(String)'' ''deepseek'')) = [2, 4]"
proof -
  have up: "map (\<lambda>i. (2::real) ^ i) [1..<MAX_RETRIES] = [2, 4]"
    by (simp add: MAX_RETRIES_def upt_conv_Cons)
  have "sleeps (concat (map (attempt_events (env_hosted ''{}'' (JDict [])) (LLM_INTERFACE ''key'')
           gpt4o_config ''int parseIntInput(String)'' ''gpt4o'') [0..<Suc 0])) = map (\<lambda>i. 2 ^ i) [1..<Suc 0]"
    by (rule sleeps_attempts)
  then have a: "sleeps (snd (evaluate_method (env_hosted ''{}'' (JDict [])) MAX_RETRIES (LLM_INTERFACE ''key'')
               ''int parseIntInput(String)'' ''gpt4o'')) = []"
    by (simp add: evaluate_empty_object)
  have "sleeps (concat (map (attempt_events env_down (LLM_INTERFACE ''key'') deepseek_config
           ''int parseIntInput(String)'' ''deepseek'') [0..<MAX_RETRIES])) = map (\<lambda>i. 2 ^ i) [1..<MAX_RETRIES]"
    by (rule sleeps_attempts)
  then have b: "sleeps (snd (evaluate_method env_down MAX_RETRIES (LLM_INTERFACE ''key'')
               ''int parseIntInput(String)'' ''deepseek'')) = [2, 4]"
    unfolding up by (simp add: evaluate_down)
  show ?thesis
    using a b
    by (simp add: evaluate_empty_object evaluate_down success_result_def failure_result_def
          gpt4o_config_def deepseek_config_def)
qed

text \<open>
  Claim C9 as stated fails: a hosted backend whose every answer is the raw text \<^verbatim>\<open>42\<close>
  returns raw text at each attempt, yet the parser raises on it, the attempt counts as
  failed, and after three attempts the result has \<open>success = False\<close>.
\<close>

theorem number_answer_is_failure:
  "fst (query_llm (env_hosted ''42'' (JInt 42)) (LLM_INTERFACE ''key'') gpt4o_config
          ''int parseIntInput(String)'' ''gpt4o'' 0) = Inr (JStr ''42'') \<and>
   (\<exists>r. fst (evaluate_method (env_hosted ''42'' (JInt 42)) MAX_RETRIES (LLM_INTERFACE ''key'')
               ''int parseIntInput(String)'' ''gpt4o'') = Inr r \<and> \<not> success r \<and>
        error r = Some TypeError \<and> attempt r = Some 3)"
  by (simp add: query_hosted evaluate_number failure_result_def)

section \<open>The hosted client and the scorer\<close>



lemma str503: "str_int 503 = ''503''"
  by (simp add: str_int_def digit_char_def)

lemma is_substring_mid: "is_substring p (a @ p @ b)"
proof (induction a)
  case Nil
  show ?case
  proof (cases "p @ b")
    case Nil
    then show ?thesis by simp
  next
    case (Cons c s)
    have "take (length p) (p @ b) = p" by simp
    then have "take (length p) (c # s) = p" using Cons by simp
    then have "is_substring p (c # s)" by simp
    then show ?thesis using Cons by simp
  qed
next
  case (Cons x a)
  then show ?case by simp
qed

lemma is_substring_end: "is_substring p (a @ p)"
  using is_substring_mid[of p a "[]"] by simp




text \<open>
  Claim C7 as stated fails: the status 201 is a successful (2xx) status and the body holds
  a first message, but \<^verbatim>\<open>query_openai\<close> accepts the status 200 only and raises the
  backend error.
\<close>

theorem status_201_is_an_error:
  "200 \<le> status_code created_response \<and> status_code created_response < 300 \<and>
   first_message_content (json_loads (env_hosted ''hi'' JNull)) created_response = Inr (JStr ''hi'') \<and>
   fst (query_openai (json_loads (env_hosted ''hi'' JNull)) (\<lambda>request. Inr created_response)
          (LLM_INTERFACE ''key'') ''prompt'' gpt4o_config) =
     Inl (Exception (''OpenAI API error: 201 - '' @ hosted_body ''hi''))"
  by (simp add: created_response_def first_message_content_def env_hosted_def query_openai_def
        gpt4o_config_def str_int_def digit_char_def)

text \<open>
  Claim C7, as amended. For every response to the request of \<^verbatim>\<open>query_openai\<close>: the status
  200 returns \<^verbatim>\<open>response.json()["choices"][0]["message"]["content"]\<close>, the content of
  the first generated message when the body holds one; the status 429 raises the
  rate-limit error; every other status, 2xx or not, raises the backend error, whose text
  holds the status code and the response body. One request is posted.
\<close>

theorem query_openai_classification:
  assumes "max_tokens config = Some mt"
    and "post (openai_request self prompt config mt) = Inr response"
  shows "(status_code response = 200 \<longrightarrow>
            fst (query_openai loads post self prompt config) = first_message_content loads response \<and>
            (\<forall>fields choice more message content.
               loads (resp_text response) = Inr (JDict fields) \<and>
               map_of fields ''choices'' = Some (JList (choice # more)) \<and>
               py_getitem choice ''message'' = Inr message \<and>
               py_getitem message ''content'' = Inr content \<longrightarrow>
               fst (query_openai loads post self prompt config) = Inr content)) \<and>
         (status_code response = 429 \<longrightarrow>
            fst (query_openai loads post self prompt config) = Inl (Exception ''Rate limit exceeded'')) \<and>
         (status_code response \<noteq> 200 \<and> status_code response \<noteq> 429 \<longrightarrow>
            (\<exists>msg. fst (query_openai loads post self prompt config) = Inl (Exception msg) \<and>
                   msg = ''OpenAI API error: '' @ str_int (status_code response) @ '' - ''
                           @ resp_text response \<and>
                   is_substring (str_int (status_code response)) msg \<and>
                   is_substring (resp_text response) msg)) \<and>
         snd (query_openai loads post self prompt config) = [Post (openai_request self prompt config mt)]"
proof -
  have sub1: "is_substring (str_int (status_code response))
                (''OpenAI API error: '' @ str_int (status_code response) @ '' - '' @ resp_text response)"
    by (rule is_substring_mid)
  have sub2: "is_substring (resp_text response)
                ((''OpenAI API error: '' @ str_int (status_code response) @ '' - '') @ resp_text response)"
    by (rule is_substring_end)
  show ?thesis
    using assms sub1 sub2
    by (auto simp: query_openai_def Let_def first_message_content_def)
qed

text \<open>The amended claim C7 at the status 503.\<close>

theorem query_openai_classification_witness:
  "max_tokens gpt4o_config = Some 1000 \<and>
   (\<lambda>request. Inr unavailable_response)
      (openai_request (LLM_INTERFACE ''key'') ''prompt'' gpt4o_config 1000) = Inr unavailable_response \<and>
   status_code unavailable_response \<noteq> 200 \<and> status_code unavailable_response \<noteq> 429 \<and>
   fst (query_openai (json_loads env_down) (\<lambda>request. Inr unavailable_response)
          (LLM_INTERFACE ''key'') ''prompt'' gpt4o_config) =
     Inl (Exception ''OpenAI API error: 503 - Service Unavailable'')"
proof -
  have a: "max_tokens gpt4o_config = Some 1000" by (simp add: gpt4o_config_def)
  have b: "(\<lambda>request. Inr unavailable_response)
      (openai_request (LLM_INTERFACE ''key'') ''prompt'' gpt4o_config 1000) = Inr unavailable_response"
    by simp
  have c: "status_code unavailable_response \<noteq> 200 \<and> status_code unavailable_response \<noteq> 429"
    by (simp add: unavailable_response_def)
  note t = query_openai_classification[OF a b, of "json_loads env_down"]
  have "fst (query_openai (json_loads env_down) (\<lambda>request. Inr unavailable_response)
          (LLM_INTERFACE ''key'') ''prompt'' gpt4o_config) =
     Inl (Exception (''OpenAI API error: '' @ str_int (status_code unavailable_response) @ '' - ''
                           @ resp_text unavailable_response))"
    using t c by blast
  then show ?thesis using a c
    by (simp add: unavailable_response_def str_int_def digit_char_def)
qed

section \<open>An answer that parses to a placeholder\<close>

lemma parse_placeholders:
  "(json_loads ev (strip_fence t) = Inl (JSONDecodeError m) \<longrightarrow>
      parse_llm_response (json_loads ev) t = Inr (parse_error_record (strip_fence t) m)) \<and>
   (bind_exn (json_loads ev (strip_fence t)) validate_fields = Inl (ValueError m) \<longrightarrow>
      parse_llm_response (json_loads ev) t = Inr (validation_error_record m))"
  by (simp add: parse_llm_response_def Let_def)

text \<open>
  Claim C9, as amended. If attempt \<open>j\<close> is the first whose \<^verbatim>\<open>try\<close> body does not raise,
  the backend returning the raw text \<open>t\<close> and the parser returning the record \<open>p\<close> for
  it (a decoded record or one of its two placeholders, \<open>parse_placeholders\<close>), then
  \<^verbatim>\<open>evaluate_method\<close> returns \<open>success = True\<close> with \<open>p\<close> as parsed response, and a run
  whose interface is this \<^verbatim>\<open>evaluate_method\<close> stores that result and the score of \<open>p\<close>
  against the method's ground truth under the backend's name.
\<close>

theorem answered_and_parsed_is_success:
  assumes "map_of (llm_configs self) l = Some config"
    and "j < k"
    and "\<forall>i<j. \<exists>e. fst (attempt_body ev self config (signature mi) l i) = Inl e"
    and "fst (query_llm ev self config (signature mi) l j) = Inr (JStr t)"
    and "parse_llm_response (json_loads ev) t = Inr p"
    and "evaluate c = evaluate_method ev k self"
    and "0 < interval" and "mi \<in> set ms" and "distinct (map signature ms)"
    and "map_of r0 (signature mi) = None" and "l \<in> set names"
  shows "(\<exists>r. fst (evaluate_method ev k self (signature mi) l) = Inr r \<and> success r \<and>
              attempt r = Some (int j + 1) \<and>
              raw_response r = Some (JStr t) \<and> parsed_response r = Some p \<and>
              (\<exists>entry. map_of (snd (fst (run_full_evaluation c interval names ms r0 out None)))
                          (signature mi) = Some entry \<and>
                        map_of (llm_responses entry) l = Some r \<and>
                        map_of (similarities entry) l =
                          Some (calculate_method_similarity (similarity_calc c) (data mi) p)))"
proof -
  let ?sig = "signature mi"
  let ?r = "success_result ev ?sig l j (JStr t) p"
  have body: "fst (attempt_body ev self config ?sig l j) = Inr (JStr t, p)"
    using assms(4,5) by (simp add: attempt_body_def Let_def parse_raw_def)
  have ev: "fst (evaluate_method ev k self ?sig l) = Inr ?r"
    using evaluate_first_success[OF assms(1,2) _ body] assms(3) by simp
  have ms: "ms \<noteq> []" using assms(8) by auto
  have res: "snd (fst (run_full_evaluation c interval names ms r0 out None)) =
               snd (fst (methods_loop c interval names out 0 ms r0))"
    using run_completes[OF assms(7) ms, of c names r0 out] by simp
  let ?entry = "fst (evaluate_llms c ?sig (data mi) names (new_entry c mi))"
  have e: "map_of (snd (fst (run_full_evaluation c interval names ms r0 out None))) ?sig = Some ?entry"
    unfolding res using assms(7,8,10,9) by (rule methods_loop_fresh)
  have ret: "fst (evaluate c ?sig l) = Inr ?r" using ev assms(6) by simp
  have r1: "map_of (llm_responses ?entry) l = Some ?r"
    using assms(11) ret by (simp add: evaluate_llms_responses stored_response_def success_result_def)
  have r2: "map_of (similarities ?entry) l =
              Some (calculate_method_similarity (similarity_calc c) (data mi) p)"
    using assms(11) ret by (simp add: evaluate_llms_similarities stored_score_def success_result_def)
  show ?thesis
    using ev e r1 r2 by (simp add: success_result_def)
qed

text \<open>The amended claim C9 at a hosted backend that answers \<^verbatim>\<open>{}\<close>: the parsed response
  is the validation placeholder, the result is a success, and the placeholder is scored.\<close>

theorem answered_and_parsed_is_success_witness:
  "map_of (llm_configs (LLM_INTERFACE ''key'')) ''gpt4o'' = Some gpt4o_config \<and>
   (0::nat) < MAX_RETRIES \<and>
   fst (query_llm (env_hosted ''{}'' (JDict [])) (LLM_INTERFACE ''key'') gpt4o_config
          (signature parse_int_method) ''gpt4o'' 0) = Inr (JStr ''{}'') \<and>
   parse_llm_response (json_loads (env_hosted ''{}'' (JDict []))) ''{}'' =
     Inr (validation_error_record ''Missing 'purpose_behavior' field'') \<and>
   evaluate hosted_empty_object =
     evaluate_method (env_hosted ''{}'' (JDict [])) MAX_RETRIES (LLM_INTERFACE ''key'') \<and>
   0 < PROGRESS_SAVE_INTERVAL \<and> parse_int_method \<in> set [parse_int_method, close_method] \<and>
   distinct (map signature [parse_int_method, close_method]) \<and>
   map_of ([] :: results) (signature parse_int_method) = None \<and>
   ''gpt4o'' \<in> set (map fst LLM_CONFIGS) \<and>
   (\<exists>r. fst (evaluate_method (env_hosted ''{}'' (JDict [])) MAX_RETRIES (LLM_INTERFACE ''key'')
               (signature parse_int_method) ''gpt4o'') = Inr r \<and> success r \<and>
        attempt r = Some 1 \<and>
        parsed_response r = Some (validation_error_record ''Missing 'purpose_behavior' field'') \<and>
        (\<exists>entry. map_of (snd (fst (run_full_evaluation hosted_empty_object PROGRESS_SAVE_INTERVAL
                                      (map fst LLM_CONFIGS) [parse_int_method, close_method] []
                                      ''out'' None)))
                    (signature parse_int_method) = Some entry \<and>
                  map_of (llm_responses entry) ''gpt4o'' = Some r \<and>
                  map_of (similarities entry) ''gpt4o'' =
                    Some (calculate_method_similarity (similarity_calc hosted_empty_object)
                            (data parse_int_method)
                            (validation_error_record ''Missing 'purpose_behavior' field''))))"
proof -
  have a1: "map_of (llm_configs (LLM_INTERFACE ''key'')) ''gpt4o'' = Some gpt4o_config"
    by (rule cfg_gpt4o)
  have a2: "(0::nat) < MAX_RETRIES" by (simp add: MAX_RETRIES_def)
  have a3: "\<forall>i<(0::nat). \<exists>e. fst (attempt_body (env_hosted ''{}'' (JDict [])) (LLM_INTERFACE ''key'')
              gpt4o_config (signature parse_int_method) ''gpt4o'' i) = Inl e" by simp
  have a4: "fst (query_llm (env_hosted ''{}'' (JDict [])) (LLM_INTERFACE ''key'') gpt4o_config
          (signature parse_int_method) ''gpt4o'' 0) = Inr (JStr ''{}'')"
    by (rule query_hosted)
  have a5: "parse_llm_response (json_loads (env_hosted ''{}'' (JDict []))) ''{}'' =
     Inr (validation_error_record ''Missing 'purpose_behavior' field'')"
    by (rule parse_empty_object)
  have a6: "evaluate hosted_empty_object =
     evaluate_method (env_hosted ''{}'' (JDict [])) MAX_RETRIES (LLM_INTERFACE ''key'')"
    by (simp add: hosted_empty_object_def program_collaborators_def)
  have a7: "0 < PROGRESS_SAVE_INTERVAL" by (simp add: PROGRESS_SAVE_INTERVAL_def)
  have a8: "parse_int_method \<in> set [parse_int_method, close_method]" by simp
  have a9: "distinct (map signature [parse_int_method, close_method])"
    by (simp add: parse_int_method_def close_method_def)
  have a10: "map_of ([] :: results) (signature parse_int_method) = None" by simp
  have a11: "''gpt4o'' \<in> set (map fst LLM_CONFIGS)" by (simp add: LLM_CONFIGS_def)
  note t = answered_and_parsed_is_success[OF a1 a2 a3 a4 a5 a6 a7 a8 a9 a10 a11, of "''out''"]
  from t obtain r entry where
      r: "fst (evaluate_method (env_hosted ''{}'' (JDict [])) MAX_RETRIES (LLM_INTERFACE ''key'')
               (signature parse_int_method) ''gpt4o'') = Inr r" "success r" "attempt r = Some (int 0 + 1)"
        "parsed_response r = Some (validation_error_record ''Missing 'purpose_behavior' field'')"
    and e: "map_of (snd (fst (run_full_evaluation hosted_empty_object PROGRESS_SAVE_INTERVAL
                                      (map fst LLM_CONFIGS) [parse_int_method, close_method] []
                                      ''out'' None)))
                    (signature parse_int_method) = Some entry"
        "map_of (llm_responses entry) ''gpt4o'' = Some r"
        "map_of (similarities entry) ''gpt4o'' =
                    Some (calculate_method_similarity (similarity_calc hosted_empty_object)
                            (data parse_int_method)
                            (validation_error_record ''Missing 'purpose_behavior' field''))"
    by blast
  have concl: "\<exists>r. fst (evaluate_method (env_hosted ''{}'' (JDict [])) MAX_RETRIES (LLM_INTERFACE ''key'')
               (signature parse_int_method) ''gpt4o'') = Inr r \<and> success r \<and>
        attempt r = Some 1 \<and>
        parsed_response r = Some (validation_error_record ''Missing 'purpose_behavior' field'') \<and>
        (\<exists>entry. map_of (snd (fst (run_full_evaluation hosted_empty_object PROGRESS_SAVE_INTERVAL
                                      (map fst LLM_CONFIGS) [parse_int_method, close_method] []
                                      ''out'' None)))
                    (signature parse_int_method) = Some entry \<and>
                  map_of (llm_responses entry) ''gpt4o'' = Some r \<and>
                  map_of (similarities entry) ''gpt4o'' =
                    Some (calculate_method_similarity (similarity_calc hosted_empty_object)
                            (data parse_int_method)
                            (validation_error_record ''Missing 'purpose_behavior' field'')))"
    using r e by (intro exI[of _ r] conjI exI[of _ entry]) simp_all
  show ?thesis
    using concl a1 a2 a4 a5 a6 a7 a8 a9 a10 a11 by (intro conjI) assumption+
qed

section \<open>Runs on the example inputs\<close>







lemma interval_pos: "0 < PROGRESS_SAVE_INTERVAL"
  by (simp add: PROGRESS_SAVE_INTERVAL_def)

lemma two_methods: "[parse_int_method, close_method] \<noteq> []"
  "distinct (map signature [parse_int_method, close_method])"
  by (simp_all add: parse_int_method_def close_method_def)

text \<open>Claim C10 at a resume file that does not exist.\<close>

theorem failed_resume_is_fresh_run_witness:
  "load_results (program_collaborators env_down no_file) ''missing.json'' = Inl FileNotFoundError \<and>
   ''missing.json'' \<noteq> [] \<and> 0 < PROGRESS_SAVE_INTERVAL \<and> [parse_int_method, close_method] \<noteq> [] \<and>
   run_full_evaluation (program_collaborators env_down no_file) PROGRESS_SAVE_INTERVAL
       (map fst LLM_CONFIGS) [parse_int_method, close_method] [] ''out'' (Some ''missing.json'') =
     (fst (run_full_evaluation (program_collaborators env_down no_file) PROGRESS_SAVE_INTERVAL
             (map fst LLM_CONFIGS) [parse_int_method, close_method] [] ''out'' None),
      WarnCouldNotResume ''missing.json'' FileNotFoundError #
      snd (run_full_evaluation (program_collaborators env_down no_file) PROGRESS_SAVE_INTERVAL
             (map fst LLM_CONFIGS) [parse_int_method, close_method] [] ''out'' None)) \<and>
   fst (fst (run_full_evaluation (program_collaborators env_down no_file) PROGRESS_SAVE_INTERVAL
       (map fst LLM_CONFIGS) [parse_int_method, close_method] [] ''out'' (Some ''missing.json''))) = None"
proof -
  have a: "load_results (program_collaborators env_down no_file) ''missing.json'' = Inl FileNotFoundError"
    by (simp add: program_collaborators_def no_file_def)
  have b: "''missing.json'' \<noteq> []" by simp
  note t = failed_resume_is_fresh_run[OF a b, where interval = PROGRESS_SAVE_INTERVAL
             and ms = "[parse_int_method, close_method]" and names = "map fst LLM_CONFIGS"
             and out = "''out''"]
  from t have p1: "run_full_evaluation (program_collaborators env_down no_file) PROGRESS_SAVE_INTERVAL
       (map fst LLM_CONFIGS) [parse_int_method, close_method] [] ''out'' (Some ''missing.json'') =
     (fst (run_full_evaluation (program_collaborators env_down no_file) PROGRESS_SAVE_INTERVAL
             (map fst LLM_CONFIGS) [parse_int_method, close_method] [] ''out'' None),
      WarnCouldNotResume ''missing.json'' FileNotFoundError #
      snd (run_full_evaluation (program_collaborators env_down no_file) PROGRESS_SAVE_INTERVAL
             (map fst LLM_CONFIGS) [parse_int_method, close_method] [] ''out'' None))"
    by blast
  from t interval_pos two_methods(1)
  have p2: "fst (fst (run_full_evaluation (program_collaborators env_down no_file) PROGRESS_SAVE_INTERVAL
       (map fst LLM_CONFIGS) [parse_int_method, close_method] [] ''out'' (Some ''missing.json''))) = None"
    by blast
  show ?thesis
    using a b interval_pos two_methods(1) p1 p2 by (intro conjI) assumption+
qed

text \<open>Claim C2 at a first run with every backend down and a second run, resumed from its
  results, whose hosted backend would answer.\<close>

theorem resume_is_idempotent_witness:
  "run_full_evaluation (program_collaborators env_down no_file) PROGRESS_SAVE_INTERVAL
       (map fst LLM_CONFIGS) [parse_int_method, close_method] [] ''out'' None =
     ((None, first_run_results),
      snd (run_full_evaluation (program_collaborators env_down no_file) PROGRESS_SAVE_INTERVAL
             (map fst LLM_CONFIGS) [parse_int_method, close_method] [] ''out'' None)) \<and>
   load_results second_run_collaborators ''out/full_results.json'' = Inr first_run_results \<and>
   ''out/full_results.json'' \<noteq> [] \<and>
   methods_loop second_run_collaborators PROGRESS_SAVE_INTERVAL (map fst LLM_CONFIGS) ''again'' 0
       [parse_int_method, close_method] first_run_results = ((None, first_run_results), []) \<and>
   run_full_evaluation second_run_collaborators PROGRESS_SAVE_INTERVAL
       (map fst LLM_CONFIGS) [parse_int_method, close_method] [] ''again''
       (Some ''out/full_results.json'') =
     ((None, first_run_results),
      [SaveJson (''again'' @ ''/full_results.json'') first_run_results,
       SaveSummary (''again'' @ ''/summary_statistics.json'')])"
proof -
  let ?run1 = "run_full_evaluation (program_collaborators env_down no_file) PROGRESS_SAVE_INTERVAL
       (map fst LLM_CONFIGS) [parse_int_method, close_method] [] ''out'' None"
  have "fst (fst ?run1) = None"
    using run_completes[OF interval_pos two_methods(1)] by blast
  then have a: "?run1 = ((None, first_run_results), snd ?run1)"
    unfolding first_run_results_def by (metis prod.collapse)
  have b: "load_results second_run_collaborators ''out/full_results.json'' = Inr first_run_results"
    by (simp add: second_run_collaborators_def program_collaborators_def)
  have c: "''out/full_results.json'' \<noteq> []" by simp
  note t = resume_is_idempotent[OF a b c, where ?out2.0 = "''again''" and r0' = "[]"]
  show ?thesis
    using t a b c by (intro conjI) simp_all
qed












section \<open>When the retry loop and the parser return\<close>

text \<open>With at least one attempt and a configured backend, \<^verbatim>\<open>evaluate_method\<close> returns a
  result whatever the client raises: the orchestrator's handler is not needed for it.\<close>

lemma evaluate_method_returns:
  assumes "map_of (llm_configs self) l = Some config" and "0 < k"
  shows "\<exists>r. fst (evaluate_method ev k self sig l) = Inr r"
proof (cases "\<exists>i<k. \<exists>x. fst (attempt_body ev self config sig l i) = Inr x")
  case True
  define P where "P i \<longleftrightarrow> i < k \<and> (\<exists>x. fst (attempt_body ev self config sig l i) = Inr x)" for i
  have ex: "\<exists>i. P i" using True by (auto simp: P_def)
  define j where "j = (LEAST i. P i)"
  have Pj: "P j" unfolding j_def using ex by (rule LeastI_ex)
  have least: "\<not> P i" if "i < j" for i using that not_less_Least unfolding j_def by blast
  obtain raw parsed where ok: "fst (attempt_body ev self config sig l j) = Inr (raw, parsed)"
    using Pj unfolding P_def by (cases "fst (attempt_body ev self config sig l j)") auto
  have fails: "\<exists>e. fst (attempt_body ev self config sig l i) = Inl e" if "i < j" for i
  proof -
    have "i < k" using that Pj unfolding P_def by simp
    then have "\<not> (\<exists>x. fst (attempt_body ev self config sig l i) = Inr x)"
      using least[OF that] unfolding P_def by simp
    then show ?thesis by (cases "fst (attempt_body ev self config sig l i)") auto
  qed
  have "j < k" using Pj unfolding P_def by simp
  then show ?thesis
    using evaluate_first_success[OF assms(1) _ fails ok] by simp
next
  case False
  have "fst (attempt_body ev self config sig l i)
          = Inl (projl (fst (attempt_body ev self config sig l i)))" if "i < k" for i
    using False that by (cases "fst (attempt_body ev self config sig l i)") auto
  then show ?thesis
    using evaluate_all_fail[OF assms, where err = "\<lambda>i. projl (fst (attempt_body ev self config sig l i))"]
    by simp
qed

text \<open>The parser returns a record when the text does not decode, and when it decodes to
  an object whose \<^verbatim>\<open>return_values\<close>, if present, is an object, a list or a string.\<close>

lemma parse_returns_on_objects:
  assumes "loads (strip_fence t) = Inr (JDict obj)"
    and "map_of obj ''return_values'' = None \<or>
         (\<exists>kvs. map_of obj ''return_values'' = Some (JDict kvs)) \<or>
         (\<exists>xs. map_of obj ''return_values'' = Some (JList xs)) \<or>
         (\<exists>s. map_of obj ''return_values'' = Some (JStr s))"
  shows "\<exists>p. parse_llm_response loads t = Inr p"
  using assms
  by (auto simp: parse_llm_response_def validate_fields_def Let_def)

lemma parse_returns_on_decode_error:
  "loads (strip_fence t) = Inl (JSONDecodeError m) \<Longrightarrow>
   parse_llm_response loads t = Inr (parse_error_record (strip_fence t) m)"
  by (simp add: parse_llm_response_def Let_def)

end
